theory Spec2Isabelle
  imports Complex_Main "HOL-Library.Log_Nat" "HOL-Library.Word"
begin

section \<open>JavaScript numbers\<close>

text \<open>
  A JavaScript Number is an IEEE-754 binary64 value: not-a-number, one of the two
  infinities, negative zero, or a finite value, which is a rational number (\<open>Num 0\<close> is
  positive zero). The finite binary64 values are the rationals \<open>m * 2 ^ e\<close> with
  \<open>\<bar>m\<bar> < 2 ^ 53\<close> and \<open>- 1074 \<le> e \<le> 971\<close>; \<open>round_double\<close> maps a rational to the
  nearest of them, ties to the even significand, with overflow to an infinity and
  underflow to a zero of the same sign. Every arithmetic operation rounds its exact
  result in this way (ECMA-262, Number::add and Number::multiply).
\<close>

datatype number = NaN | Infinity | NegInfinity | NegZero | Num rat

definition pow2 :: "int \<Rightarrow> rat" where
  "pow2 e = (if 0 \<le> e then 2 ^ nat e else 1 / 2 ^ nat (- e))"

text \<open>The binary exponent of a positive rational: \<open>pow2 (ilog2 x) \<le> x < pow2 (ilog2 x + 1)\<close>.\<close>

definition ilog2 :: "rat \<Rightarrow> int" where
  "ilog2 x = (if 1 \<le> x then bitlen \<lfloor>x\<rfloor> - 1 else - bitlen (\<lceil>1 / x\<rceil> - 1))"

definition round_half_even :: "rat \<Rightarrow> int" where
  "round_half_even x =
     (let f = \<lfloor>x\<rfloor>; d = x - of_int f
      in if d < 1 / 2 then f else if 1 / 2 < d then f + 1 else if even f then f else f + 1)"

text \<open>
  The spacing of the binary64 values around \<open>x\<close> is \<open>pow2 e\<close>, where \<open>e\<close> is 52 below the
  binary exponent of \<open>x\<close>, and \<open>- 1074\<close> in the subnormal range.
\<close>

definition round_double :: "rat \<Rightarrow> number" where
  "round_double x =
     (if x = 0 then Num 0
      else
        let a = \<bar>x\<bar>;
            e = max (ilog2 a - 52) (- 1074);
            r = of_int (round_half_even (a / pow2 e)) * pow2 e
        in if pow2 1024 \<le> r then (if 0 < x then Infinity else NegInfinity)
           else if r = 0 then (if 0 < x then Num 0 else NegZero)
           else Num (if 0 < x then r else - r))"

definition representable :: "rat \<Rightarrow> bool" where
  "representable x \<longleftrightarrow> round_double x = Num x"

fun js_neg :: "number \<Rightarrow> number" where
  "js_neg NaN = NaN"
| "js_neg Infinity = NegInfinity"
| "js_neg NegInfinity = Infinity"
| "js_neg NegZero = Num 0"
| "js_neg (Num x) = (if x = 0 then NegZero else Num (- x))"

fun js_add :: "number \<Rightarrow> number \<Rightarrow> number" where
  "js_add NaN y = NaN"
| "js_add x NaN = NaN"
| "js_add Infinity NegInfinity = NaN"
| "js_add NegInfinity Infinity = NaN"
| "js_add Infinity y = Infinity"
| "js_add NegInfinity y = NegInfinity"
| "js_add x Infinity = Infinity"
| "js_add x NegInfinity = NegInfinity"
| "js_add NegZero y = y"
| "js_add x NegZero = x"
| "js_add (Num x) (Num y) = round_double (x + y)"

fun is_infinite :: "number \<Rightarrow> bool" where
  "is_infinite Infinity = True"
| "is_infinite NegInfinity = True"
| "is_infinite _ = False"

fun is_zero :: "number \<Rightarrow> bool" where
  "is_zero NegZero = True"
| "is_zero (Num x) = (x = 0)"
| "is_zero _ = False"

fun sign_bit :: "number \<Rightarrow> bool" where
  "sign_bit NegInfinity = True"
| "sign_bit NegZero = True"
| "sign_bit (Num x) = (x < 0)"
| "sign_bit _ = False"

fun finite_value :: "number \<Rightarrow> rat" where
  "finite_value (Num x) = x"
| "finite_value _ = 0"

definition js_mul :: "number \<Rightarrow> number \<Rightarrow> number" where
  "js_mul x y =
     (if x = NaN \<or> y = NaN then NaN
      else if (is_infinite x \<and> is_zero y) \<or> (is_zero x \<and> is_infinite y) then NaN
      else if is_infinite x \<or> is_infinite y
        then (if sign_bit x = sign_bit y then Infinity else NegInfinity)
      else if is_zero x \<or> is_zero y
        then (if sign_bit x = sign_bit y then Num 0 else NegZero)
      else round_double (finite_value x * finite_value y))"

text \<open>
  The Dimensions invariant of the specification: a non-negative real number. Negative
  zero is the real number 0.
\<close>

fun nonneg_real :: "number \<Rightarrow> bool" where
  "nonneg_real (Num x) = (0 \<le> x)"
| "nonneg_real NegZero = True"
| "nonneg_real _ = False"

section \<open>The built-in \<open>parseFloat\<close>\<close>

text \<open>
  ECMA-262, parseFloat(string): leading white space is removed, the longest prefix
  that is a StrDecimalLiteral is converted to the nearest Number, and the result is
  not-a-number when no prefix is one. (Past the twentieth significant digit of a
  literal ECMA-262 leaves an implementation a choice; the model rounds the exact
  decimal value, as the engines do.) A \<open>char\<close> stands for a code unit below 256, so
  of the white space and line terminator code points the model has TAB, LF, VT, FF,
  CR, SP and NBSP.
\<close>

definition is_white :: "char \<Rightarrow> bool" where
  "is_white c \<longleftrightarrow> of_char c \<in> {9, 10, 11, 12, 13, 32, 160 :: nat}"

definition is_digit :: "char \<Rightarrow> bool" where
  "is_digit c \<longleftrightarrow> 48 \<le> (of_char c :: nat) \<and> (of_char c :: nat) \<le> 57"

definition digit_value :: "char \<Rightarrow> nat" where
  "digit_value c = of_char c - 48"

definition digits_value :: "string \<Rightarrow> nat" where
  "digits_value ds = foldl (\<lambda>a c. 10 * a + digit_value c) 0 ds"

definition decimal_digits :: "string \<Rightarrow> nat option" where
  "decimal_digits s =
     (let ds = takeWhile is_digit s in if ds = [] then None else Some (digits_value ds))"

definition signed_integer :: "string \<Rightarrow> int option" where
  "signed_integer s =
     (case s of
        [] \<Rightarrow> None
      | c # cs \<Rightarrow>
          if c = CHR ''+'' then map_option int (decimal_digits cs)
          else if c = CHR ''-'' then map_option (\<lambda>n. - int n) (decimal_digits cs)
          else map_option int (decimal_digits s))"

definition exponent_part :: "string \<Rightarrow> int" where
  "exponent_part s =
     (case s of
        [] \<Rightarrow> 0
      | c # cs \<Rightarrow>
          if c = CHR ''e'' \<or> c = CHR ''E''
          then (case signed_integer cs of None \<Rightarrow> 0 | Some e \<Rightarrow> e)
          else 0)"

definition scale10 :: "rat \<Rightarrow> int \<Rightarrow> rat" where
  "scale10 m e = (if 0 \<le> e then m * 10 ^ nat e else m / 10 ^ nat (- e))"

definition str_unsigned_decimal_literal :: "string \<Rightarrow> number" where
  "str_unsigned_decimal_literal s =
     (if take 8 s = ''Infinity'' then Infinity
      else
        let ip = takeWhile is_digit s;
            r1 = dropWhile is_digit s;
            fp = (case r1 of [] \<Rightarrow> []
                  | c # t \<Rightarrow> if c = CHR ''.'' then takeWhile is_digit t else []);
            r2 = (case r1 of [] \<Rightarrow> []
                  | c # t \<Rightarrow> if c = CHR ''.'' then dropWhile is_digit t else r1)
        in if ip = [] \<and> fp = [] then NaN
           else round_double (scale10
                  (of_nat (digits_value ip) + of_nat (digits_value fp) / 10 ^ length fp)
                  (exponent_part r2)))"

definition parseFloat :: "string \<Rightarrow> number" where
  "parseFloat s =
     (let t = dropWhile is_white s in
      case t of
        [] \<Rightarrow> NaN
      | c # cs \<Rightarrow>
          if c = CHR ''+'' then str_unsigned_decimal_literal cs
          else if c = CHR ''-'' then js_neg (str_unsigned_decimal_literal cs)
          else str_unsigned_decimal_literal t)"

section \<open>The document and the host\<close>

text \<open>
  The script refers to two nodes, \<open>document.documentElement\<close> and \<open>document.body\<close>; both
  exist in the documents considered here, next to any number of other nodes. Of each
  node the model keeps its place in the tree (the list of its children) and what a
  script can read of its layout: the computed style (every property of a
  CSSStyleDeclaration is a string), the attributes \<open>scrollWidth\<close>, \<open>offsetWidth\<close> and
  \<open>offsetHeight\<close>, and the rectangle returned by \<open>getBoundingClientRect()\<close>.

  The three attributes are of type \<open>long\<close> in the DOM interface and never negative: a
  value is a natural number below \<open>2 ^ 31\<close>. The width and the height of a bounding
  rectangle are binary64 values that are never negative.
\<close>

datatype node = DocumentElement | Body | Node nat

type_synonym nonneg_long = "31 word"

typedef nonneg_double = "{x :: rat. 0 \<le> x \<and> representable x}"
  morphisms double_value Abs_nonneg_double
  by (rule exI [of _ 0]) (simp add: representable_def round_double_def)

setup_lifting type_definition_nonneg_double

text \<open>The binary64 value \<open>x\<close>, for an \<open>x\<close> that is one and is not negative (and 0 otherwise).\<close>

lift_definition nonneg_double :: "rat \<Rightarrow> nonneg_double"
  is "\<lambda>x. if 0 \<le> x \<and> representable x then x else 0"
  by (simp add: representable_def round_double_def)

record css_style =
  marginTop :: string
  marginRight :: string
  marginBottom :: string
  marginLeft :: string
  borderTop :: string
  borderRight :: string
  borderBottom :: string
  borderLeft :: string

record dom_rect =
  rect_width :: nonneg_double
  rect_height :: nonneg_double

record element =
  childNodes :: "node list"
  computedStyle :: css_style
  scrollWidth :: nonneg_long
  offsetWidth :: nonneg_long
  offsetHeight :: nonneg_long
  boundingClientRect :: dom_rect

text \<open>Reading the attribute \<open>height\<close> of a rectangle, or an attribute of type \<open>long\<close>, gives a Number.\<close>

definition height_of :: "dom_rect \<Rightarrow> number" where
  "height_of r = Num (double_value (rect_height r))"

definition of_long :: "nonneg_long \<Rightarrow> number" where
  "of_long i = Num (of_nat (unat i))"

text \<open>
  The state the script runs in: the document; the properties of the global object;
  the ResizeObserver instances created so far (each is the list of the nodes it
  observes; every observer the script creates has the callback
  \<open>entries => _adjust()\<close>); the observers that have been given a target whose size
  they have not reported yet; and the log of the calls made to the host's
  \<open>_rpc_adjustWindowToContent\<close>, oldest first.
\<close>

datatype js_value = Undefined | JsNumber number | JsString string | JsFunction string

record state =
  document :: "node \<Rightarrow> element"
  globals :: "string \<Rightarrow> js_value"
  observers :: "node list list"
  unreported :: "nat list"
  calls :: "(number \<times> number) list"

definition getComputedStyle :: "node \<Rightarrow> state \<Rightarrow> css_style" where
  "getComputedStyle n st = computedStyle (document st n)"

definition getBoundingClientRect :: "node \<Rightarrow> state \<Rightarrow> dom_rect" where
  "getBoundingClientRect n st = boundingClientRect (document st n)"

text \<open>The host's resize operation is outside the script: a call is recorded with its arguments.\<close>

definition rpc_adjustWindowToContent :: "number \<Rightarrow> number \<Rightarrow> state \<Rightarrow> state" where
  "rpc_adjustWindowToContent width height st = st\<lparr>calls := calls st @ [(width, height)]\<rparr>"

text \<open>
  \<open>new ResizeObserver(callback)\<close> creates an observer without targets and returns its
  handle (its position in the list). \<open>observe\<close> adds a target once; the size of a new
  target has not been reported, so the observer owes a first notification.
\<close>

definition new_ResizeObserver :: "state \<Rightarrow> nat \<times> state" where
  "new_ResizeObserver st =
     (length (observers st), st\<lparr>observers := observers st @ [[]]\<rparr>)"

definition observe :: "nat \<Rightarrow> node \<Rightarrow> state \<Rightarrow> state" where
  "observe ro n st =
     (if ro < length (observers st) \<and> n \<notin> set (observers st ! ro)
      then st\<lparr>observers := (observers st)[ro := observers st ! ro @ [n]],
              unreported := (if ro \<in> set (unreported st) then unreported st
                             else unreported st @ [ro])\<rparr>
      else st)"

section \<open>The first version of the script (variant A)\<close>

text \<open>
  \<^verbatim>\<open>
  function _adjust() {
      const s = getComputedStyle(document.body);
      const [mt, mr, mb, ml] = [s.marginTop, s.marginRight, s.marginBottom, s.marginLeft].map(parseFloat);
      const [bt, br, bb, bl] = [s.borderTop, s.borderRight, s.borderBottom, s.borderLeft].map(parseFloat);
      const width = ml + bl + document.body.scrollWidth + br + mr;
      const height = document.documentElement.getBoundingClientRect().height;
      _rpc_adjustWindowToContent(width, height);
  }
  onload = function () {
      const resizeObserver = new ResizeObserver(entries => _adjust());
      resizeObserver.observe(document.documentElement)
  }
  \<close>
  \<open>parseFloat\<close> reads its first argument only, so the index and the array that \<open>map\<close>
  passes along do not matter. The array patterns take the elements by position.
\<close>

definition adjust_A :: "state \<Rightarrow> state" where
  "adjust_A st =
     (let s = getComputedStyle Body st;
          ms = map parseFloat [marginTop s, marginRight s, marginBottom s, marginLeft s];
          mt = ms ! 0; mr = ms ! 1; mb = ms ! 2; ml = ms ! 3;
          bs = map parseFloat [borderTop s, borderRight s, borderBottom s, borderLeft s];
          bt = bs ! 0; br = bs ! 1; bb = bs ! 2; bl = bs ! 3;
          width = js_add (js_add (js_add (js_add ml bl)
                    (of_long (scrollWidth (document st Body)))) br) mr;
          height = height_of (getBoundingClientRect DocumentElement st)
      in rpc_adjustWindowToContent width height st)"

definition onload_A :: "state \<Rightarrow> state" where
  "onload_A st =
     (let (resizeObserver, st1) = new_ResizeObserver st
      in observe resizeObserver DocumentElement st1)"

section \<open>The second version of the script (variant B)\<close>

text \<open>
  \<^verbatim>\<open>
  function _adjust() {
      const width = document.documentElement.offsetWidth;
      const height = document.documentElement.offsetHeight;
      _rpc_adjustWindowToContent(
          width * 2,
          height * 2
      );
  }
  onload = function () {
      const resizeObserver = new ResizeObserver(entries => _adjust());
      resizeObserver.observe(document.body)
  }
  \<close>
\<close>

definition adjust_B :: "state \<Rightarrow> state" where
  "adjust_B st =
     (let width = of_long (offsetWidth (document st DocumentElement));
          height = of_long (offsetHeight (document st DocumentElement))
      in rpc_adjustWindowToContent (js_mul width (Num 2)) (js_mul height (Num 2)) st)"

definition onload_B :: "state \<Rightarrow> state" where
  "onload_B st =
     (let (resizeObserver, st1) = new_ResizeObserver st
      in observe resizeObserver Body st1)"

section \<open>Events\<close>

text \<open>
  The script's top level defines \<open>_adjust\<close> and assigns \<open>onload\<close>; it creates no observer
  and makes no call. After it, the environment drives the script with three kinds of
  events.

  The load event runs the \<open>onload\<close> handler. The rendering update that follows the
  handler delivers the first notification of every observer that owes one, whatever
  the size of its target: the engine invokes the observer's callback once, with the
  list of its entries.

  A later notification of ResizeObserver number \<open>i\<close> invokes that observer's callback
  once more; only an existing observer with a target can deliver one, and when it
  does is left to the environment.

  A change of the document is an event in which the script takes no part. An event
  that cannot happen in a state has no successor.
\<close>

datatype variant = VariantA | VariantB

datatype event = Load | Notify nat | Relayout "node \<Rightarrow> element"

fun adjust :: "variant \<Rightarrow> state \<Rightarrow> state" where
  "adjust VariantA = adjust_A"
| "adjust VariantB = adjust_B"

fun onload :: "variant \<Rightarrow> state \<Rightarrow> state" where
  "onload VariantA = onload_A"
| "onload VariantB = onload_B"

text \<open>The callback \<open>entries => _adjust()\<close> of either variant.\<close>

definition callback :: "variant \<Rightarrow> node list \<Rightarrow> state \<Rightarrow> state" where
  "callback v entries st = adjust v st"

definition update_the_rendering :: "variant \<Rightarrow> state \<Rightarrow> state" where
  "update_the_rendering v st =
     (fold (\<lambda>ro s. callback v (observers s ! ro) s) (unreported st) st)\<lparr>unreported := []\<rparr>"

fun step :: "variant \<Rightarrow> event \<Rightarrow> state \<Rightarrow> state option" where
  "step v Load st = Some (update_the_rendering v (onload v st))"
| "step v (Notify i) st =
     (if i < length (observers st) \<and> observers st ! i \<noteq> []
      then Some (callback v (observers st ! i) st) else None)"
| "step v (Relayout d) st = Some (st\<lparr>document := d\<rparr>)"

fun run :: "variant \<Rightarrow> event list \<Rightarrow> state \<Rightarrow> state option" where
  "run v [] st = Some st"
| "run v (e # es) st = (case step v e st of None \<Rightarrow> None | Some st' \<Rightarrow> run v es st')"

text \<open>The state the top level of the script leaves behind on a document \<open>d\<close>.\<close>

definition script :: "state \<Rightarrow> state" where
  "script st =
     st\<lparr>globals := (globals st)(''_adjust'' := JsFunction ''_adjust'',
                                  ''onload'' := JsFunction ''onload'')\<rparr>"

definition init :: "(node \<Rightarrow> element) \<Rightarrow> state" where
  "init d =
     script \<lparr>document = d, globals = (\<lambda>name. Undefined), observers = [], unreported = [],
             calls = []\<rparr>"

fun is_Notify :: "event \<Rightarrow> bool" where
  "is_Notify (Notify i) = True"
| "is_Notify _ = False"

text \<open>The signals of the specification: the load event and the notifications.\<close>

fun is_signal :: "event \<Rightarrow> bool" where
  "is_signal Load = True"
| "is_signal (Notify i) = True"
| "is_signal (Relayout d) = False"

text \<open>The pair an invocation of \<open>_adjust\<close> forwards: the last entry of the call log.\<close>

definition forwarded :: "variant \<Rightarrow> state \<Rightarrow> number \<times> number" where
  "forwarded v st = last (calls (adjust v st))"

section \<open>Example documents\<close>

definition plain_style :: css_style where
  "plain_style =
     \<lparr>marginTop = ''0px'', marginRight = ''0px'', marginBottom = ''0px'', marginLeft = ''0px'',
      borderTop = ''0px none rgb(0, 0, 0)'', borderRight = ''0px none rgb(0, 0, 0)'',
      borderBottom = ''0px none rgb(0, 0, 0)'', borderLeft = ''0px none rgb(0, 0, 0)''\<rparr>"

text \<open>
  An element with children \<open>cs\<close>, style \<open>s\<close>, scroll width \<open>sw\<close> and a border box of \<open>w\<close> by
  \<open>h\<close> pixels.
\<close>

definition box :: "node list \<Rightarrow> css_style \<Rightarrow> nonneg_long \<Rightarrow> nonneg_long \<Rightarrow> nonneg_long \<Rightarrow> element" where
  "box cs s sw w h =
     \<lparr>childNodes = cs, computedStyle = s, scrollWidth = sw, offsetWidth = w, offsetHeight = h,
      boundingClientRect =
        \<lparr>rect_width = nonneg_double (of_nat (unat w)),
         rect_height = nonneg_double (of_nat (unat h))\<rparr>\<rparr>"

text \<open>A document of a root element \<open>r\<close> whose only child is the body \<open>b\<close>, which is empty.\<close>

definition page :: "(css_style \<times> nonneg_long \<times> nonneg_long \<times> nonneg_long)
    \<Rightarrow> (css_style \<times> nonneg_long \<times> nonneg_long \<times> nonneg_long) \<Rightarrow> node \<Rightarrow> element" where
  "page r b n =
     (case n of
        DocumentElement \<Rightarrow> (case r of (s, sw, w, h) \<Rightarrow> box [Body] s sw w h)
      | Body \<Rightarrow> (case b of (s, sw, w, h) \<Rightarrow> box [] s sw w h)
      | Node k \<Rightarrow> box [] plain_style 0 0 0)"

text \<open>
  The two scenarios of the specification in one document: a body with 10px margins,
  2px borders and scroll width 300 inside a root element of 400 by 200 pixels.
\<close>

definition page_scenario :: "node \<Rightarrow> element" where
  "page_scenario =
     page (plain_style, 400, 400, 200)
       (plain_style\<lparr>marginLeft := ''10px'', borderLeft := ''2px solid rgb(0, 0, 0)'',
          borderRight := ''2px solid rgb(0, 0, 0)'', marginRight := ''10px''\<rparr>,
        300, 304, 180)"

text \<open>A root element of 400 by 200 pixels whose body has 8px margins and no border.\<close>

definition page_default :: "node \<Rightarrow> element" where
  "page_default =
     page (plain_style, 400, 400, 200)
       (plain_style\<lparr>marginTop := ''8px'', marginRight := ''8px'',
          marginBottom := ''8px'', marginLeft := ''8px''\<rparr>,
        384, 384, 184)"


text \<open>A computed style whose border shorthands are empty strings.\<close>

definition page_no_shorthand :: "node \<Rightarrow> element" where
  "page_no_shorthand =
     page (plain_style, 400, 400, 200)
       (plain_style\<lparr>borderTop := '''', borderRight := '''',
          borderBottom := '''', borderLeft := ''''\<rparr>,
        400, 400, 200)"

definition page_negative_margin :: "node \<Rightarrow> element" where
  "page_negative_margin =
     page (plain_style, 400, 400, 200)
       (plain_style\<lparr>marginLeft := ''-500px''\<rparr>, 300, 300, 200)"

text \<open>A body whose left margin and left border are 1e308 pixels wide.\<close>

definition page_huge_margin :: "node \<Rightarrow> element" where
  "page_huge_margin =
     page (plain_style, 400, 400, 200)
       (plain_style\<lparr>marginLeft := ''1e308px'', borderLeft := ''1e308px solid rgb(0, 0, 0)''\<rparr>,
        300, 300, 200)"

definition page_auto_top :: "node \<Rightarrow> element" where
  "page_auto_top =
     page (plain_style, 400, 400, 200)
       (plain_style\<lparr>marginTop := ''auto'', marginBottom := ''auto''\<rparr>, 400, 400, 200)"

text \<open>
  A state that differs from \<open>init page_scenario\<close> in what \<open>_adjust\<close> does not read: the
  root's scroll width, the global object, the observers and the call log.
\<close>

definition state_other :: state where
  "state_other =
     \<lparr>document = page (plain_style, 999, 400, 200)
          (plain_style\<lparr>marginLeft := ''10px'', borderLeft := ''2px solid rgb(0, 0, 0)'',
             borderRight := ''2px solid rgb(0, 0, 0)'', marginRight := ''10px''\<rparr>,
           300, 304, 180),
      globals = (\<lambda>name. JsNumber NaN), observers = [[Body]], unreported = [],
      calls = [(NaN, NaN)]\<rparr>"

section \<open>Rounding to binary64\<close>

lemma pow2_pos: "0 < pow2 e"
  by (simp add: pow2_def)

lemma pow2_neg_nat: "pow2 (- int n) = 1 / 2 ^ n"
  by (auto simp: pow2_def)

text \<open>The binary exponent is the one the two inequalities determine.\<close>

lemma ilog2_unique:
  assumes "0 < x" and "pow2 k \<le> x" and "x < pow2 (k + 1)"
  shows "ilog2 x = k"
proof (cases "1 \<le> x")
  case True
  have k0: "0 \<le> k"
  proof (rule ccontr)
    assume "\<not> 0 \<le> k"
    then have "k + 1 \<le> 0" by simp
    then have "pow2 (k + 1) \<le> 1"
      by (auto simp: pow2_def divide_le_eq_1)
    with assms(3) True show False by simp
  qed
  let ?n = "\<lfloor>x\<rfloor>"
  have lo: "2 ^ nat k \<le> ?n"
  proof -
    have "(of_int (2 ^ nat k) :: rat) \<le> x" using assms(2) k0 by (simp add: pow2_def)
    then show ?thesis by (simp add: le_floor_iff)
  qed
  have hi: "?n < 2 ^ nat (k + 1)"
  proof -
    have "x < (of_int (2 ^ nat (k + 1)) :: rat)" using assms(3) k0 by (simp add: pow2_def)
    then show ?thesis by (simp add: floor_less_iff)
  qed
  have "bitlen ?n \<le> k + 1"
    using hi k0 by (simp add: bitlen_le_iff_power)
  moreover have "k + 1 \<le> bitlen ?n"
    using lo k0 by (simp add: bitlen_ge_iff_power nat_add_distrib)
  ultimately show ?thesis using True by (simp add: ilog2_def)
next
  case False
  then have x1: "x < 1" by simp
  have kneg: "k < 0"
  proof (rule ccontr)
    assume "\<not> k < 0"
    then have "1 \<le> pow2 k" by (simp add: pow2_def)
    with assms(2) x1 show False by simp
  qed
  define j where "j = nat (- k)"
  have j: "0 < j" "k = - int j" using kneg by (simp_all add: j_def)
  let ?y = "1 / x"
  have "1 / 2 ^ j \<le> x" using assms(2) j by (simp add: pow2_neg_nat)
  then have yhi: "?y \<le> 2 ^ j"
    using assms(1) by (simp add: field_simps)
  have "x < 1 / 2 ^ (j - 1)"
  proof -
    have "k + 1 = - int (j - 1)" using j by simp
    with assms(3) show ?thesis by (simp only: pow2_neg_nat)
  qed
  then have ylo: "2 ^ (j - 1) < ?y"
    using assms(1) by (simp add: field_simps)
  let ?m = "\<lceil>?y\<rceil> - 1"
  have "\<lceil>?y\<rceil> \<le> 2 ^ j"
  proof -
    have "?y \<le> of_int (2 ^ j)" using yhi by simp
    then show ?thesis by (simp only: ceiling_le_iff)
  qed
  then have "?m < 2 ^ j" by simp
  then have b1: "bitlen ?m \<le> int j"
    by (simp add: bitlen_le_iff_power)
  have "of_int (2 ^ (j - 1)) < ?y" using ylo by simp
  then have "2 ^ (j - 1) < \<lceil>?y\<rceil>" by (simp only: less_ceiling_iff)
  then have "2 ^ (j - 1) \<le> ?m" by simp
  then have b2: "int j \<le> bitlen ?m"
    by (simp add: bitlen_ge_iff_power)
  from b1 b2 show ?thesis using False j by (simp add: ilog2_def)
qed

text \<open>Rounding a positive rational whose binary exponent \<open>k\<close> is known.\<close>

lemma round_double_pos:
  assumes "0 < x" and "pow2 k \<le> x" and "x < pow2 (k + 1)"
  shows "round_double x =
           (let e = max (k - 52) (- 1074);
                r = of_int (round_half_even (x / pow2 e)) * pow2 e
            in if pow2 1024 \<le> r then Infinity else if r = 0 then Num 0 else Num r)"
  using assms by (simp add: round_double_def ilog2_unique [OF assms] Let_def)

lemma round_double_minus: "x \<noteq> 0 \<Longrightarrow> round_double (- x) = js_neg (round_double x)"
  by (auto simp: round_double_def Let_def)

lemma round_half_even_of_int: "round_half_even (of_int i) = i"
  by (simp add: round_half_even_def)

text \<open>The natural numbers below \<open>2 ^ 53\<close> are binary64 values.\<close>

lemma round_double_of_nat:
  assumes "n < 2 ^ 53"
  shows "round_double (of_nat n) = Num (of_nat n)"
proof (cases "n = 0")
  case True
  then show ?thesis by (simp add: round_double_def)
next
  case False
  then have pos: "0 < int n" by simp
  define b where "b = bitlen (int n)"
  from bitlen_bounds [OF pos] have lo: "2 ^ nat (b - 1) \<le> int n" and hi: "int n < 2 ^ nat b"
    by (simp_all add: b_def)
  have b1: "1 \<le> b"
    using pos by (simp add: b_def bitlen_ge_iff_power)
  have b53: "b \<le> 53"
    using assms by (simp add: b_def bitlen_le_iff_power)
  define k where "k = b - 1"
  have k: "0 \<le> k" "k \<le> 52" using b1 b53 by (simp_all add: k_def)
  have x0: "0 < (of_nat n :: rat)" using False by simp
  have xlo: "pow2 k \<le> of_nat n"
  proof -
    have "(of_int (2 ^ nat (b - 1)) :: rat) \<le> of_int (int n)"
      using lo by (simp only: of_int_le_iff)
    then show ?thesis using k by (simp add: pow2_def k_def)
  qed
  have xhi: "of_nat n < pow2 (k + 1)"
  proof -
    have "(of_int (int n) :: rat) < of_int (2 ^ nat b)"
      using hi by (simp only: of_int_less_iff)
    then show ?thesis using k b1 by (simp add: pow2_def k_def)
  qed
  define j where "j = nat (52 - k)"
  have e: "max (k - 52) (- 1074) = - int j" using k by (simp add: j_def)
  have q: "(of_nat n :: rat) / pow2 (- int j) = of_int (int n * 2 ^ j)"
    by (simp add: pow2_neg_nat)
  have r: "of_int (round_half_even (of_nat n / pow2 (- int j))) * pow2 (- int j)
             = (of_nat n :: rat)"
    by (simp only: q round_half_even_of_int) (simp add: pow2_neg_nat)
  have big: "\<not> pow2 1024 \<le> (of_nat n :: rat)"
  proof -
    have "(of_nat n :: rat) < of_nat (2 ^ 53)" using assms by (simp only: of_nat_less_iff)
    also have "\<dots> \<le> pow2 1024" by (simp add: pow2_def)
    finally show ?thesis by simp
  qed
  show ?thesis
    using x0 big by (simp add: round_double_pos [OF x0 xlo xhi] e r Let_def)
qed

lemma representable_of_nat: "n < 2 ^ 53 \<Longrightarrow> representable (of_nat n)"
  by (simp add: representable_def round_double_of_nat)

lemma round_double_numeral:
  "numeral k < (2 :: nat) ^ 53 \<Longrightarrow> round_double (numeral k) = Num (numeral k)"
  using round_double_of_nat [of "numeral k"] by simp

lemma round_double_neg_numeral:
  "numeral k < (2 :: nat) ^ 53 \<Longrightarrow> round_double (- numeral k) = Num (- numeral k)"
  by (simp add: round_double_minus round_double_numeral)

lemma round_double_0: "round_double 0 = Num 0"
  by (simp add: round_double_def)

lemma round_double_1: "round_double 1 = Num 1"
  using round_double_of_nat [of 1] by simp

lemma representable_numeral: "numeral k < (2 :: nat) ^ 53 \<Longrightarrow> representable (numeral k)"
  by (simp add: representable_def round_double_numeral)

lemma representable_0: "representable 0"
  by (simp add: representable_def round_double_0)

text \<open>Rounding keeps the sign: a non-negative rational never rounds below zero.\<close>

lemma round_double_nonneg:
  assumes "0 \<le> x"
  shows "round_double x = Infinity \<or> (\<exists>r. round_double x = Num r \<and> 0 \<le> r)"
proof (cases "x = 0")
  case True
  then show ?thesis by (simp add: round_double_def)
next
  case False
  with assms have pos: "0 < x" by simp
  define e where "e = max (ilog2 \<bar>x\<bar> - 52) (- 1074)"
  define r where "r = of_int (round_half_even (\<bar>x\<bar> / pow2 e)) * pow2 e"
  have "0 \<le> \<bar>x\<bar> / pow2 e" using pow2_pos [of e] by simp
  then have "0 \<le> round_half_even (\<bar>x\<bar> / pow2 e)"
    by (auto simp: round_half_even_def Let_def)
  then have "0 \<le> r" using pow2_pos [of e] by (simp add: r_def)
  then show ?thesis
    using pos False by (auto simp: round_double_def Let_def e_def r_def)
qed

lemma floor_rat_numeral: "\<lfloor>numeral a / numeral b :: rat\<rfloor> = numeral a div numeral b"
  by (metis floor_divide_of_int_eq of_int_numeral)

lemmas round_eval = pow2_def round_half_even_def Let_def floor_rat_numeral

lemmas number_eval =
  round_double_numeral round_double_neg_numeral round_double_0 round_double_1
  representable_numeral representable_0

text \<open>The binary64 values nearest to a tenth and to a fifth, and their sum.\<close>

lemma round_double_tenth:
  "round_double (1 / 10) = Num (3602879701896397 / 36028797018963968)"
  by (simp add: round_double_pos [of _ "- 4"] round_eval)

lemma round_double_fifth:
  "round_double (1 / 5) = Num (3602879701896397 / 18014398509481984)"
  by (simp add: round_double_pos [of _ "- 3"] round_eval)

lemma round_double_tenth_plus_fifth:
  "round_double (3602879701896397 / 36028797018963968 + 3602879701896397 / 18014398509481984)
     = Num (1351079888211149 / 4503599627370496)"
  by (simp add: round_double_pos [of _ "- 2"] round_eval)

section \<open>Values of the document\<close>

lemma double_value_nonneg: "0 \<le> double_value h"
  using double_value [of h] by simp

lemma double_value_of_nat: "n < 2 ^ 53 \<Longrightarrow> double_value (nonneg_double (of_nat n)) = of_nat n"
  by (simp add: nonneg_double.rep_eq representable_of_nat)

lemma unsigned_long_nonneg: "0 \<le> (unsigned (w :: nonneg_long) :: rat)"
proof -
  have "(unsigned w :: rat) = of_nat (unat w)" by simp
  then show ?thesis by (simp only: of_nat_0_le_iff)
qed

text \<open>Doubling a \<open>long\<close> is exact.\<close>

lemma js_mul_long_2: "js_mul (of_long w) (Num 2) = Num (2 * of_nat (unat w))"
proof (cases "unat w = 0")
  case True
  then show ?thesis by (simp add: js_mul_def of_long_def)
next
  case False
  have "2 * unat w < 2 ^ 53"
  proof -
    have "unat w < 2 ^ 31" using unsigned_less [of w] by simp
    then have "2 * unat w < 2 * 2 ^ 31" by simp
    also have "\<dots> < (2 :: nat) ^ 53" by simp
    finally show ?thesis .
  qed
  from round_double_of_nat [OF this]
  have "round_double (of_nat (unat w) * 2) = Num (2 * of_nat (unat w))"
    by (simp add: mult.commute)
  with False show ?thesis by (simp add: js_mul_def of_long_def)
qed

lemma double_value_numeral:
  "numeral k < (2 :: nat) ^ 53 \<Longrightarrow> double_value (nonneg_double (numeral k)) = numeral k"
  using double_value_of_nat [of "numeral k"] by simp

lemma double_value_0: "double_value (nonneg_double 0) = 0"
  using double_value_of_nat [of 0] by simp

section \<open>Evaluation and frame lemmas\<close>

lemmas parseFloat_eval =
  parseFloat_def str_unsigned_decimal_literal_def is_white_def is_digit_def digit_value_def
  digits_value_def decimal_digits_def signed_integer_def exponent_part_def scale10_def
  number_eval

lemmas adjust_unfold =
  adjust_A_def adjust_B_def getComputedStyle_def getBoundingClientRect_def
  rpc_adjustWindowToContent_def of_long_def height_of_def

lemmas page_eval =
  page_def box_def plain_style_def init_def script_def double_value_numeral double_value_0

lemma js_add_NaN_right: "js_add x NaN = NaN"
  by (cases x) simp_all

lemma adjust_eq: "adjust v st = st\<lparr>calls := calls st @ [forwarded v st]\<rparr>"
  by (cases v)
    (simp_all add: forwarded_def adjust_A_def adjust_B_def rpc_adjustWindowToContent_def Let_def)

lemma length_calls_adjust: "length (calls (adjust v st)) = Suc (length (calls st))"
  by (subst adjust_eq) simp

lemma forwarded_A_eq:
  "forwarded VariantA st =
     (js_add (js_add (js_add (js_add
        (parseFloat (marginLeft (computedStyle (document st Body))))
        (parseFloat (borderLeft (computedStyle (document st Body)))))
        (of_long (scrollWidth (document st Body))))
        (parseFloat (borderRight (computedStyle (document st Body)))))
        (parseFloat (marginRight (computedStyle (document st Body)))),
      height_of (boundingClientRect (document st DocumentElement)))"
  by (simp add: forwarded_def adjust_A_def getComputedStyle_def getBoundingClientRect_def
      rpc_adjustWindowToContent_def Let_def)

lemma forwarded_B_eq:
  "forwarded VariantB st =
     (js_mul (of_long (offsetWidth (document st DocumentElement))) (Num 2),
      js_mul (of_long (offsetHeight (document st DocumentElement))) (Num 2))"
  by (simp add: forwarded_def adjust_B_def rpc_adjustWindowToContent_def Let_def)

lemma onload_A_eq:
  "onload_A st =
     st\<lparr>observers := observers st @ [[DocumentElement]],
        unreported := (if length (observers st) \<in> set (unreported st) then unreported st
                       else unreported st @ [length (observers st)])\<rparr>"
  by (simp add: onload_A_def new_ResizeObserver_def observe_def nth_append)

lemma onload_B_eq:
  "onload_B st =
     st\<lparr>observers := observers st @ [[Body]],
        unreported := (if length (observers st) \<in> set (unreported st) then unreported st
                       else unreported st @ [length (observers st)])\<rparr>"
  by (simp add: onload_B_def new_ResizeObserver_def observe_def nth_append)

lemma calls_onload: "calls (onload v st) = calls st"
  by (cases v) (simp_all add: onload_A_eq onload_B_eq)

lemma unreported_onload:
  "unreported st = [] \<Longrightarrow> unreported (onload v st) = [length (observers st)]"
  by (cases v) (simp_all add: onload_A_eq onload_B_eq)

text \<open>
  The rendering update after a load handler that found no notification owed: the one
  new observer reports, through one invocation of \<open>_adjust\<close>.
\<close>

lemma update_after_onload:
  "unreported st = [] \<Longrightarrow>
     update_the_rendering v (onload v st) = (adjust v (onload v st))\<lparr>unreported := []\<rparr>"
  by (simp add: update_the_rendering_def callback_def unreported_onload)

lemma step_signal:
  assumes "step v e st = Some st1" and "unreported st = []"
  shows "unreported st1 = [] \<and>
         length (calls st1) = length (calls st) + (if is_signal e then 1 else 0)"
proof (cases e)
  case Load
  with assms show ?thesis
    by (auto simp: update_after_onload length_calls_adjust calls_onload)
next
  case (Notify i)
  have "unreported (adjust v st) = unreported st"
    by (subst adjust_eq) simp
  with Notify assms show ?thesis
    by (auto simp: callback_def length_calls_adjust split: if_splits)
next
  case (Relayout d)
  with assms show ?thesis by auto
qed

lemma run_append:
  "run v (xs @ ys) st = (case run v xs st of None \<Rightarrow> None | Some st' \<Rightarrow> run v ys st')"
  by (induction xs arbitrary: st) (simp_all split: option.splits)

text \<open>
  Without a load event no observer comes into being, so no notification can be
  delivered and the call log stays as it is.
\<close>

lemma run_no_load:
  "Load \<notin> set tr \<Longrightarrow> observers st = [] \<Longrightarrow> run v tr st = Some st' \<Longrightarrow>
     observers st' = [] \<and> calls st' = calls st"
proof (induction tr arbitrary: st)
  case Nil
  then show ?case by simp
next
  case (Cons e es)
  show ?case
  proof (cases e)
    case Load
    with Cons.prems show ?thesis by simp
  next
    case (Notify i)
    with Cons.prems show ?thesis by simp
  next
    case (Relayout d)
    with Cons.prems have "run v es (st\<lparr>document := d\<rparr>) = Some st'" by simp
    with Cons.IH [of "st\<lparr>document := d\<rparr>"] Cons.prems show ?thesis by simp
  qed
qed

text \<open>The calls the two variants make on the example documents.\<close>

lemma calls_A_default: "calls (adjust_A (init page_default)) = [(Num 400, Num 200)]"
  by (simp add: adjust_unfold page_default_def page_eval parseFloat_eval)

lemma calls_B_default: "calls (adjust_B (init page_default)) = [(Num 800, Num 400)]"
  by (simp add: adjust_B_def rpc_adjustWindowToContent_def js_mul_long_2 page_default_def
      page_eval)

section \<open>What variant A measures\<close>




section \<open>What variant B measures\<close>

text \<open>
  Claim C2. For every \<open>offsetWidth\<close> \<open>w\<close> and \<open>offsetHeight\<close> \<open>h\<close> of the root element
  (non-negative values of type \<open>long\<close>), variant B's \<open>_adjust\<close> makes one call with the
  arguments \<open>2 * w\<close> and \<open>2 * h\<close>, in that order.
\<close>

theorem adjust_B_doubles_offsets:
  assumes "offsetWidth (document st DocumentElement) = w"
    and "offsetHeight (document st DocumentElement) = h"
  shows "calls (adjust_B st) =
           calls st @ [(Num (2 * of_nat (unat w)), Num (2 * of_nat (unat h)))]"
  using assms by (simp add: adjust_B_def rpc_adjustWindowToContent_def js_mul_long_2)

text \<open>The scenario of claim C2: a root element of 400 by 200 is forwarded as (800, 400).\<close>

theorem adjust_B_scenario_800_400:
  "offsetWidth (document (init page_scenario) DocumentElement) = 400
   \<and> offsetHeight (document (init page_scenario) DocumentElement) = 200
   \<and> calls (adjust_B (init page_scenario)) = [(Num 800, Num 400)]"
proof -
  have w: "offsetWidth (document (init page_scenario) DocumentElement) = 400"
    by (simp add: page_scenario_def page_eval)
  have h: "offsetHeight (document (init page_scenario) DocumentElement) = 200"
    by (simp add: page_scenario_def page_eval)
  have c: "calls (init page_scenario) = []"
    by (simp add: init_def script_def)
  from adjust_B_doubles_offsets [OF w h] c
  have "calls (adjust_B (init page_scenario)) = [(Num 800, Num 400)]"
    by simp
  with w h show ?thesis by simp
qed

section \<open>The two variants disagree\<close>

text \<open>
  Claim C3. There is a document on which the two variants forward different pairs:
  a root element of 400 by 200 pixels, with a bounding rectangle of the same height,
  whose body has 8px margins and scroll width 384. Started with an empty call log,
  variant A's \<open>_adjust\<close> makes the one call (400, 200) and variant B's the one call
  (800, 400).
\<close>

theorem variants_disagree:
  "\<exists>st. calls st = []
        \<and> offsetWidth (document st DocumentElement) = 400
        \<and> offsetHeight (document st DocumentElement) = 200
        \<and> height_of (boundingClientRect (document st DocumentElement)) = Num 200
        \<and> calls (adjust_A st) = [(Num 400, Num 200)]
        \<and> calls (adjust_B st) = [(Num 800, Num 400)]
        \<and> (Num 400, Num 200) \<noteq> (Num 800, Num 400)"
proof (rule exI [of _ "init page_default"], intro conjI)
  show "calls (init page_default) = []"
    by (simp add: init_def script_def)
  show "offsetWidth (document (init page_default) DocumentElement) = 400"
    by (simp add: page_default_def page_eval)
  show "offsetHeight (document (init page_default) DocumentElement) = 200"
    by (simp add: page_default_def page_eval)
  show "height_of (boundingClientRect (document (init page_default) DocumentElement)) = Num 200"
    by (simp add: height_of_def page_default_def page_eval)
  show "calls (adjust_A (init page_default)) = [(Num 400, Num 200)]"
    by (rule calls_A_default)
  show "calls (adjust_B (init page_default)) = [(Num 800, Num 400)]"
    by (rule calls_B_default)
  show "(Num 400, Num 200) \<noteq> (Num 800, Num 400)"
    by simp
qed

section \<open>When the host is called\<close>

text \<open>
  Claim C4. Along every trace of either variant the host is called exactly once for
  every signal, that is for every load event (through the first notification of the
  observer the handler installs) and for every later notification: the number of calls
  made is the number of signals, and a change of the document brings no call.
\<close>

theorem one_call_per_signal:
  "run v tr st = Some st' \<Longrightarrow> unreported st = [] \<Longrightarrow>
     length (calls st') = length (calls st) + length (filter is_signal tr)"
proof (induction tr arbitrary: st)
  case Nil
  then show ?case by simp
next
  case (Cons e es)
  from Cons.prems obtain st1 where s: "step v e st = Some st1" and r: "run v es st1 = Some st'"
    by (auto split: option.splits)
  from step_signal [OF s Cons.prems(2)]
  have u: "unreported st1 = []"
    and c: "length (calls st1) = length (calls st) + (if is_signal e then 1 else 0)"
    by simp_all
  from Cons.IH [OF r u] c show ?case by simp
qed

text \<open>
  A trace of variant A with the load event and two later notifications, the document
  changing in between: three calls, each with the measurement of its moment.
\<close>

theorem one_call_per_signal_witness:
  "map_option calls
     (run VariantA [Load, Notify 0, Relayout page_scenario, Notify 0] (init page_default))
     = Some [(Num 400, Num 200), (Num 400, Num 200), (Num 324, Num 200)]
   \<and> unreported (init page_default) = []
   \<and> length [(Num 400, Num 200), (Num 400, Num 200), (Num 324, Num 200 :: number)]
       = length (calls (init page_default))
         + length (filter is_signal [Load, Notify 0, Relayout page_scenario, Notify 0])"
proof -
  have "\<exists>st. run VariantA [Load, Notify 0, Relayout page_scenario, Notify 0] (init page_default)
            = Some st
          \<and> calls st = [(Num 400, Num 200), (Num 400, Num 200), (Num 324, Num 200)]"
    by (simp add: onload_A_eq update_the_rendering_def callback_def adjust_unfold
        page_default_def page_scenario_def page_eval parseFloat_eval)
  then obtain st
    where r: "run VariantA [Load, Notify 0, Relayout page_scenario, Notify 0] (init page_default)
                = Some st"
      and c: "calls st = [(Num 400, Num 200), (Num 400, Num 200), (Num 324, Num 200)]"
    by blast
  have u: "unreported (init page_default) = []"
    by (simp add: init_def script_def)
  from one_call_per_signal [OF r u] r c u show ?thesis by simp
qed

text \<open>
  Claim C5. In every trace of either variant, as long as the load event has not
  happened the host has not been called: the part of a trace before the first load
  event runs, and leaves the call log empty.
\<close>

theorem no_call_before_load:
  "run v (pre @ post) (init d) = Some st \<Longrightarrow> Load \<notin> set pre \<Longrightarrow>
     \<exists>st'. run v pre (init d) = Some st' \<and> calls st' = []"
proof -
  assume r: "run v (pre @ post) (init d) = Some st" and n: "Load \<notin> set pre"
  from r obtain st' where p: "run v pre (init d) = Some st'"
    by (auto simp: run_append split: option.splits)
  from run_no_load [OF n _ p] have "calls st' = []"
    by (simp add: init_def script_def)
  with p show ?thesis by blast
qed

text \<open>
  A trace of variant B that ends with calls: the document changes, then the load
  event, then a notification. Before the load event there is no call.
\<close>

theorem no_call_before_load_witness:
  "map_option calls
     (run VariantB ([Relayout page_scenario] @ [Load, Notify 0]) (init page_default))
     = Some [(Num 800, Num 400), (Num 800, Num 400)]
   \<and> Load \<notin> set [Relayout page_scenario]
   \<and> (\<exists>st'. run VariantB [Relayout page_scenario] (init page_default) = Some st'
            \<and> calls st' = [])"
proof -
  have "\<exists>st. run VariantB ([Relayout page_scenario] @ [Load, Notify 0]) (init page_default)
            = Some st
          \<and> calls st = [(Num 800, Num 400), (Num 800, Num 400)]"
    by (simp add: onload_B_eq update_the_rendering_def callback_def adjust_B_def
        rpc_adjustWindowToContent_def js_mul_long_2 page_scenario_def page_eval)
  then obtain st
    where r: "run VariantB ([Relayout page_scenario] @ [Load, Notify 0]) (init page_default)
                = Some st"
      and c: "calls st = [(Num 800, Num 400), (Num 800, Num 400)]"
    by blast
  have n: "Load \<notin> set [Relayout page_scenario]" by simp
  from no_call_before_load [OF r n] r c n show ?thesis by simp
qed

section \<open>The values forwarded\<close>

lemma js_add_keeps_nonneg:
  assumes "a = Infinity \<or> (\<exists>r. a = Num r \<and> 0 \<le> r)" and "0 \<le> y"
  shows "js_add a (Num y) = Infinity \<or> (\<exists>r. js_add a (Num y) = Num r \<and> 0 \<le> r)"
proof (cases "a = Infinity")
  case True
  then show ?thesis by simp
next
  case False
  with assms(1) obtain r where "a = Num r" and "0 \<le> r" by blast
  with assms(2) round_double_nonneg [of "r + y"] show ?thesis by simp
qed

text \<open>
  Claim C6 asks for two non-negative real numbers on every document. Variant A has no
  guard: with empty border shorthands the width it forwards is not-a-number; with a
  left margin of -500px on a body of scroll width 300 it is -200; and with a left
  margin and a left border of 1e308px, two non-negative numbers, the sum overflows
  and the width is Infinity.
\<close>

theorem adjust_A_forwards_nan_and_negative:
  "calls (adjust_A (init page_no_shorthand)) = [(NaN, Num 200)]
   \<and> \<not> nonneg_real NaN
   \<and> calls (adjust_A (init page_negative_margin)) = [(Num (- 200), Num 200)]
   \<and> \<not> nonneg_real (Num (- 200))
   \<and> nonneg_real (parseFloat (marginLeft (computedStyle (document (init page_huge_margin) Body))))
   \<and> nonneg_real (parseFloat (borderLeft (computedStyle (document (init page_huge_margin) Body))))
   \<and> calls (adjust_A (init page_huge_margin)) = [(Infinity, Num 200)]
   \<and> \<not> nonneg_real Infinity"
proof -
  have a: "calls (adjust_A (init page_no_shorthand)) = [(NaN, Num 200)]"
    by (simp add: adjust_unfold page_no_shorthand_def page_eval parseFloat_eval)
  have b: "calls (adjust_A (init page_negative_margin)) = [(Num (- 200), Num 200)]"
    by (simp add: adjust_unfold page_negative_margin_def page_eval parseFloat_eval)
  have "\<exists>d. round_double (10 ^ 308) = Num d \<and> 0 \<le> d \<and> round_double (d + d) = Infinity"
    by (simp add: round_double_pos [of _ 1023] round_double_pos [of _ 1024] round_eval)
  then obtain d where d: "round_double (10 ^ 308) = Num d" "0 \<le> d"
    "round_double (d + d) = Infinity"
    by blast
  have ml: "parseFloat (marginLeft (computedStyle (document (init page_huge_margin) Body)))
              = Num d"
    using d(1) by (simp add: page_huge_margin_def page_eval parseFloat_eval)
  have bl: "parseFloat (borderLeft (computedStyle (document (init page_huge_margin) Body)))
              = Num d"
    using d(1) by (simp add: page_huge_margin_def page_eval parseFloat_eval)
  have rest: "parseFloat (borderRight (computedStyle (document (init page_huge_margin) Body)))
                = Num 0"
    "parseFloat (marginRight (computedStyle (document (init page_huge_margin) Body))) = Num 0"
    "height_of (boundingClientRect (document (init page_huge_margin) DocumentElement)) = Num 200"
    "calls (init page_huge_margin) = []"
    by (simp_all add: height_of_def page_huge_margin_def page_eval parseFloat_eval)
  have c: "calls (adjust_A (init page_huge_margin)) = [(Infinity, Num 200)]"
    using ml bl rest d(3)
    by (simp add: adjust_A_def getComputedStyle_def getBoundingClientRect_def
        rpc_adjustWindowToContent_def of_long_def)
  from a b c ml bl d(2) show ?thesis by simp
qed

text \<open>
  Claim C6, amended. Variant B always forwards two non-negative real numbers, and the
  height variant A forwards is always a non-negative real number. The width variant
  A forwards is a non-negative real number, or Infinity where the sum overflows,
  whenever the body's left and right margins and borders parse to non-negative
  numbers.
\<close>

theorem forwarded_nonneg:
  "nonneg_real (fst (forwarded VariantB st)) \<and> nonneg_real (snd (forwarded VariantB st))
   \<and> nonneg_real (snd (forwarded VariantA st))
   \<and> (parseFloat (marginLeft (computedStyle (document st Body))) = Num ml \<and> 0 \<le> ml \<and>
       parseFloat (borderLeft (computedStyle (document st Body))) = Num bl \<and> 0 \<le> bl \<and>
       parseFloat (borderRight (computedStyle (document st Body))) = Num br \<and> 0 \<le> br \<and>
       parseFloat (marginRight (computedStyle (document st Body))) = Num mr \<and> 0 \<le> mr
      \<longrightarrow> fst (forwarded VariantA st) = Infinity \<or> nonneg_real (fst (forwarded VariantA st)))"
proof (intro conjI impI)
  show "nonneg_real (fst (forwarded VariantB st))"
    and "nonneg_real (snd (forwarded VariantB st))"
    by (simp_all add: forwarded_B_eq js_mul_long_2 unsigned_long_nonneg)
next
  show "nonneg_real (snd (forwarded VariantA st))"
    by (simp add: forwarded_A_eq height_of_def double_value_nonneg)
next
  assume h: "parseFloat (marginLeft (computedStyle (document st Body))) = Num ml \<and> 0 \<le> ml \<and>
       parseFloat (borderLeft (computedStyle (document st Body))) = Num bl \<and> 0 \<le> bl \<and>
       parseFloat (borderRight (computedStyle (document st Body))) = Num br \<and> 0 \<le> br \<and>
       parseFloat (marginRight (computedStyle (document st Body))) = Num mr \<and> 0 \<le> mr"
  define sw :: rat where "sw = of_nat (unat (scrollWidth (document st Body)))"
  have sw: "0 \<le> sw" by (simp add: sw_def unsigned_long_nonneg)
  have "Num ml = Infinity \<or> (\<exists>r. Num ml = Num r \<and> 0 \<le> r)"
    using h by simp
  from js_add_keeps_nonneg [OF this, of bl] h
  have "js_add (Num ml) (Num bl) = Infinity \<or> (\<exists>r. js_add (Num ml) (Num bl) = Num r \<and> 0 \<le> r)"
    by simp
  from js_add_keeps_nonneg [OF this sw]
  have "js_add (js_add (Num ml) (Num bl)) (Num sw) = Infinity
        \<or> (\<exists>r. js_add (js_add (Num ml) (Num bl)) (Num sw) = Num r \<and> 0 \<le> r)" .
  from js_add_keeps_nonneg [OF this, of br] h
  have "js_add (js_add (js_add (Num ml) (Num bl)) (Num sw)) (Num br) = Infinity
        \<or> (\<exists>r. js_add (js_add (js_add (Num ml) (Num bl)) (Num sw)) (Num br) = Num r \<and> 0 \<le> r)"
    by simp
  from js_add_keeps_nonneg [OF this, of mr] h
  have "js_add (js_add (js_add (js_add (Num ml) (Num bl)) (Num sw)) (Num br)) (Num mr) = Infinity
        \<or> (\<exists>r. js_add (js_add (js_add (js_add (Num ml) (Num bl)) (Num sw)) (Num br)) (Num mr)
                  = Num r \<and> 0 \<le> r)"
    by simp
  moreover have "fst (forwarded VariantA st)
      = js_add (js_add (js_add (js_add (Num ml) (Num bl)) (Num sw)) (Num br)) (Num mr)"
    using h by (simp add: forwarded_A_eq of_long_def sw_def)
  ultimately show "fst (forwarded VariantA st) = Infinity
      \<or> nonneg_real (fst (forwarded VariantA st))"
    by auto
qed

text \<open>On the scenario document the conditions hold and both variants forward non-negative numbers.\<close>

theorem forwarded_nonneg_witness:
  "parseFloat (marginLeft (computedStyle (document (init page_scenario) Body))) = Num 10
   \<and> parseFloat (borderLeft (computedStyle (document (init page_scenario) Body))) = Num 2
   \<and> parseFloat (borderRight (computedStyle (document (init page_scenario) Body))) = Num 2
   \<and> parseFloat (marginRight (computedStyle (document (init page_scenario) Body))) = Num 10
   \<and> nonneg_real (fst (forwarded VariantB (init page_scenario)))
   \<and> nonneg_real (snd (forwarded VariantB (init page_scenario)))
   \<and> nonneg_real (snd (forwarded VariantA (init page_scenario)))
   \<and> (fst (forwarded VariantA (init page_scenario)) = Infinity
      \<or> nonneg_real (fst (forwarded VariantA (init page_scenario))))"
proof -
  let ?st = "init page_scenario"
  let ?s = "computedStyle (document ?st Body)"
  have p: "parseFloat (marginLeft ?s) = Num 10" "parseFloat (borderLeft ?s) = Num 2"
    "parseFloat (borderRight ?s) = Num 2" "parseFloat (marginRight ?s) = Num 10"
    by (simp_all add: page_scenario_def page_eval parseFloat_eval)
  from forwarded_nonneg [of ?st 10 2 2 10] p show ?thesis by simp
qed

text \<open>
  Claim C7 lets any margin or border value that parses to not-a-number flow into the
  width. The top and bottom values are parsed and then not used: with \<open>auto\<close> as top
  and bottom margin both parse to not-a-number, and the width forwarded is 400.
\<close>

theorem nan_top_margin_not_in_width:
  "parseFloat (marginTop (computedStyle (document (init page_auto_top) Body))) = NaN
   \<and> parseFloat (marginBottom (computedStyle (document (init page_auto_top) Body))) = NaN
   \<and> calls (adjust_A (init page_auto_top)) = [(Num 400, Num 200)]"
  by (simp add: adjust_unfold page_auto_top_def page_eval parseFloat_eval)

text \<open>
  Claim C7, amended. If one of the four values that enter the width (left margin,
  left border, right border, right margin) parses to not-a-number, variant A's
  \<open>_adjust\<close> makes its call all the same, and the width of that call is not-a-number.
\<close>

theorem nan_flows_into_width:
  assumes "parseFloat (marginLeft (computedStyle (document st Body))) = NaN
         \<or> parseFloat (borderLeft (computedStyle (document st Body))) = NaN
         \<or> parseFloat (borderRight (computedStyle (document st Body))) = NaN
         \<or> parseFloat (marginRight (computedStyle (document st Body))) = NaN"
  shows "calls (adjust_A st) =
           calls st @ [(NaN, height_of (boundingClientRect (document st DocumentElement)))]"
  using assms
  by (auto simp: adjust_A_def getComputedStyle_def getBoundingClientRect_def
      rpc_adjustWindowToContent_def js_add_NaN_right)

text \<open>With an empty left border the call is made with the width not-a-number.\<close>

theorem nan_flows_into_width_witness:
  "parseFloat (borderLeft (computedStyle (document (init page_no_shorthand) Body))) = NaN
   \<and> calls (adjust_A (init page_no_shorthand)) = [(NaN, Num 200)]"
proof -
  have b: "parseFloat (borderLeft (computedStyle (document (init page_no_shorthand) Body))) = NaN"
    by (simp add: page_no_shorthand_def page_eval parseFloat_eval)
  have h: "height_of (boundingClientRect (document (init page_no_shorthand) DocumentElement))
             = Num 200"
    by (simp add: height_of_def page_no_shorthand_def page_eval)
  have c: "calls (init page_no_shorthand) = []"
    by (simp add: init_def script_def)
  from nan_flows_into_width [of "init page_no_shorthand"] b h c
  have "calls (adjust_A (init page_no_shorthand)) = [(NaN, Num 200)]" by simp
  with b show ?thesis by simp
qed

section \<open>The observed node\<close>

text \<open>
  Claim C8 has every variant observe the root element. The handler of variant B
  registers the body.
\<close>

theorem onload_B_observes_body:
  "observers (onload_B (init page_default)) = [[Body]] \<and> Body \<noteq> DocumentElement"
  by (simp add: onload_B_eq init_def script_def)

text \<open>
  Claim C8, amended. The handler of variant A installs one observer, registered on
  the root element; the handler of variant B installs one observer, registered on
  the body element.
\<close>

theorem onload_observed_node:
  "observers (onload_A st) = observers st @ [[DocumentElement]]
   \<and> observers (onload_B st) = observers st @ [[Body]]"
  by (simp add: onload_A_eq onload_B_eq)

section \<open>Frame and determinism\<close>

text \<open>
  Claim C9. In both variants an invocation of \<open>_adjust\<close> leaves the document (the tree,
  the computed styles and the geometry of every node), the global object and the
  observers as they are; its one effect is one call to the host, added to the log,
  with the pair it has computed: in variant A the sum of the body's parsed left
  margin, left border, scroll width, right border and right margin, and the height of
  the root's bounding rectangle; in variant B twice the root's \<open>offsetWidth\<close> and
  twice its \<open>offsetHeight\<close>.
\<close>

theorem adjust_only_appends_one_call:
  "document (adjust_A st) = document st
   \<and> globals (adjust_A st) = globals st
   \<and> observers (adjust_A st) = observers st
   \<and> unreported (adjust_A st) = unreported st
   \<and> calls (adjust_A st) =
       calls st @
       [(js_add (js_add (js_add (js_add
           (parseFloat (marginLeft (computedStyle (document st Body))))
           (parseFloat (borderLeft (computedStyle (document st Body)))))
           (of_long (scrollWidth (document st Body))))
           (parseFloat (borderRight (computedStyle (document st Body)))))
           (parseFloat (marginRight (computedStyle (document st Body)))),
         height_of (boundingClientRect (document st DocumentElement)))]
   \<and> document (adjust_B st) = document st
   \<and> globals (adjust_B st) = globals st
   \<and> observers (adjust_B st) = observers st
   \<and> unreported (adjust_B st) = unreported st
   \<and> calls (adjust_B st) =
       calls st @
       [(js_mul (of_long (offsetWidth (document st DocumentElement))) (Num 2),
         js_mul (of_long (offsetHeight (document st DocumentElement))) (Num 2))]"
proof -
  have a: "adjust_A st = st\<lparr>calls := calls st @ [forwarded VariantA st]\<rparr>"
    using adjust_eq [of VariantA st] by simp
  have b: "adjust_B st = st\<lparr>calls := calls st @ [forwarded VariantB st]\<rparr>"
    using adjust_eq [of VariantB st] by simp
  show ?thesis
    by (subst (1 2 3 4 5) a, subst (1 2 3 4 5) b) (simp add: forwarded_A_eq forwarded_B_eq)
qed

text \<open>
  Claim C10. The pair forwarded depends on what \<open>_adjust\<close> reads and on nothing else:
  two states that agree on the body's computed style and scroll width and on the
  root's bounding rectangle give the same pair in variant A, and two states that
  agree on the root's \<open>offsetWidth\<close> and \<open>offsetHeight\<close> give the same pair in
  variant B.
\<close>

theorem forwarded_deterministic:
  "(computedStyle (document s1 Body) = computedStyle (document s2 Body) \<and>
    scrollWidth (document s1 Body) = scrollWidth (document s2 Body) \<and>
    boundingClientRect (document s1 DocumentElement)
      = boundingClientRect (document s2 DocumentElement)
      \<longrightarrow> forwarded VariantA s1 = forwarded VariantA s2)
   \<and> (offsetWidth (document s1 DocumentElement) = offsetWidth (document s2 DocumentElement) \<and>
       offsetHeight (document s1 DocumentElement) = offsetHeight (document s2 DocumentElement)
      \<longrightarrow> forwarded VariantB s1 = forwarded VariantB s2)"
proof (intro conjI impI)
  assume "computedStyle (document s1 Body) = computedStyle (document s2 Body) \<and>
    scrollWidth (document s1 Body) = scrollWidth (document s2 Body) \<and>
    boundingClientRect (document s1 DocumentElement)
      = boundingClientRect (document s2 DocumentElement)"
  then show "forwarded VariantA s1 = forwarded VariantA s2"
    by (simp add: forwarded_A_eq)
next
  assume "offsetWidth (document s1 DocumentElement) = offsetWidth (document s2 DocumentElement) \<and>
    offsetHeight (document s1 DocumentElement) = offsetHeight (document s2 DocumentElement)"
  then show "forwarded VariantB s1 = forwarded VariantB s2"
    by (simp add: forwarded_B_eq)
qed

text \<open>Two different states that agree on what is read forward the same pairs.\<close>

theorem forwarded_deterministic_witness:
  "init page_scenario \<noteq> state_other
   \<and> computedStyle (document (init page_scenario) Body) = computedStyle (document state_other Body)
   \<and> scrollWidth (document (init page_scenario) Body) = scrollWidth (document state_other Body)
   \<and> boundingClientRect (document (init page_scenario) DocumentElement)
       = boundingClientRect (document state_other DocumentElement)
   \<and> offsetWidth (document (init page_scenario) DocumentElement)
       = offsetWidth (document state_other DocumentElement)
   \<and> offsetHeight (document (init page_scenario) DocumentElement)
       = offsetHeight (document state_other DocumentElement)
   \<and> forwarded VariantA (init page_scenario) = forwarded VariantA state_other
   \<and> forwarded VariantB (init page_scenario) = forwarded VariantB state_other"
proof -
  have d: "init page_scenario \<noteq> state_other"
    by (simp add: init_def script_def state_other_def)
  have h: "computedStyle (document (init page_scenario) Body)
             = computedStyle (document state_other Body)"
    "scrollWidth (document (init page_scenario) Body) = scrollWidth (document state_other Body)"
    "boundingClientRect (document (init page_scenario) DocumentElement)
       = boundingClientRect (document state_other DocumentElement)"
    "offsetWidth (document (init page_scenario) DocumentElement)
       = offsetWidth (document state_other DocumentElement)"
    "offsetHeight (document (init page_scenario) DocumentElement)
       = offsetHeight (document state_other DocumentElement)"
    by (simp_all add: state_other_def page_scenario_def page_def box_def init_def script_def)
  from forwarded_deterministic [of "init page_scenario" state_other] d h show ?thesis by simp
qed

end
